theory Spec2Isabelle
  imports Complex_Main
begin

section \<open>Numbers of the module\<close>

text \<open>
  The module \<open>orbit.py\<close> computes with the magnitudes of \<open>pint\<close> quantities, which are
  binary64 numbers handled by \<open>numpy\<close>. A magnitude is modelled as a real number or one
  of the three special values of IEEE 754. The finite values are exact reals: rounding,
  overflow to infinity and underflow to zero are not part of the model, and the two
  zeros \<open>+0.0\<close> and \<open>-0.0\<close> are one value. The special values follow IEEE 754 as
  \<open>numpy\<close> implements it: an operation on them returns a value and only warns, it
  never raises.
\<close>

datatype fval = Finite real | PosInf | NegInf | NaN

text \<open>Unary minus.\<close>

fun fneg :: "fval \<Rightarrow> fval" where
  "fneg (Finite x) = Finite (- x)"
| "fneg PosInf = NegInf"
| "fneg NegInf = PosInf"
| "fneg NaN = NaN"

text \<open>Addition: infinities of opposite sign add to NaN.\<close>

fun fadd :: "fval \<Rightarrow> fval \<Rightarrow> fval" where
  "fadd NaN b = NaN"
| "fadd a NaN = NaN"
| "fadd (Finite x) (Finite y) = Finite (x + y)"
| "fadd (Finite x) b = b"
| "fadd a (Finite y) = a"
| "fadd PosInf PosInf = PosInf"
| "fadd NegInf NegInf = NegInf"
| "fadd PosInf NegInf = NaN"
| "fadd NegInf PosInf = NaN"

text \<open>The sign of a product with an infinity; zero times infinity is NaN.\<close>

definition signed_inf :: "real \<Rightarrow> fval" where
  "signed_inf s = (if 0 < s then PosInf else if s < 0 then NegInf else NaN)"

fun fmul :: "fval \<Rightarrow> fval \<Rightarrow> fval" where
  "fmul NaN b = NaN"
| "fmul a NaN = NaN"
| "fmul (Finite x) (Finite y) = Finite (x * y)"
| "fmul (Finite x) PosInf = signed_inf x"
| "fmul (Finite x) NegInf = signed_inf (- x)"
| "fmul PosInf (Finite y) = signed_inf y"
| "fmul NegInf (Finite y) = signed_inf (- y)"
| "fmul PosInf PosInf = PosInf"
| "fmul NegInf NegInf = PosInf"
| "fmul PosInf NegInf = NegInf"
| "fmul NegInf PosInf = NegInf"

text \<open>
  True division. A finite nonzero number divided by zero is an infinity, zero by zero is
  NaN, and nothing is raised. A zero divisor is taken as \<open>+0.0\<close>: every divisor of this
  module is a square or the cube of a norm, and neither is ever \<open>-0.0\<close>.
\<close>

fun fdiv :: "fval \<Rightarrow> fval \<Rightarrow> fval" where
  "fdiv NaN b = NaN"
| "fdiv a NaN = NaN"
| "fdiv (Finite x) (Finite y) = (if y \<noteq> 0 then Finite (x / y) else signed_inf x)"
| "fdiv (Finite x) b = Finite 0"
| "fdiv PosInf (Finite y) = (if 0 \<le> y then PosInf else NegInf)"
| "fdiv NegInf (Finite y) = (if 0 \<le> y then NegInf else PosInf)"
| "fdiv a b = NaN"

text \<open>\<open>numpy.square\<close>, \<open>numpy.power\<close> with a natural exponent, \<open>numpy.sqrt\<close>.\<close>

definition square :: "fval \<Rightarrow> fval" where
  "square x = fmul x x"

fun power_np :: "fval \<Rightarrow> nat \<Rightarrow> fval" where
  "power_np (Finite x) n = Finite (x ^ n)"
| "power_np PosInf n = (if n = 0 then Finite 1 else PosInf)"
| "power_np NegInf n = (if n = 0 then Finite 1 else if even n then PosInf else NegInf)"
| "power_np NaN n = (if n = 0 then Finite 1 else NaN)"

fun fsqrt :: "fval \<Rightarrow> fval" where
  "fsqrt (Finite x) = (if 0 \<le> x then Finite (sqrt x) else NaN)"
| "fsqrt PosInf = PosInf"
| "fsqrt NegInf = NaN"
| "fsqrt NaN = NaN"



subsection \<open>One-dimensional arrays\<close>

text \<open>
  A separation vector is a one-dimensional \<open>ndarray\<close>. A scalar times an array and an
  array divided by a scalar work element by element. \<open>numpy.linalg.norm\<close> of a real
  one-dimensional array is the square root of its dot product with itself.
\<close>

type_synonym ndarray = "fval list"

definition scalar_mul :: "fval \<Rightarrow> ndarray \<Rightarrow> ndarray" where
  "scalar_mul s v = map (fmul s) v"

definition div_scalar :: "ndarray \<Rightarrow> fval \<Rightarrow> ndarray" where
  "div_scalar v d = map (\<lambda>x. fdiv x d) v"

primrec dot :: "ndarray \<Rightarrow> ndarray \<Rightarrow> fval" where
  "dot [] w = Finite 0"
| "dot (x # v) w = (case w of [] \<Rightarrow> Finite 0 | y # w' \<Rightarrow> fadd (fmul x y) (dot v w'))"

definition norm_np :: "ndarray \<Rightarrow> fval" where
  "norm_np v = fsqrt (dot v v)"

text \<open>
  The Euclidean norm \<open>|r|\<close> of the specification, on the finite components of a
  vector. It is what the formulas of the properties below are written with.
\<close>

definition euclidean_norm :: "real list \<Rightarrow> real" where
  "euclidean_norm xs = sqrt (\<Sum>x\<leftarrow>xs. x\<^sup>2)"

section \<open>Constants\<close>

text \<open>
  A constant is a quantity: a magnitude and the unit string it is built from. The
  functions below compute on magnitudes; the unit algebra of the \<open>pint\<close> library is
  not modelled, and the arguments are magnitudes in units that fit the constant.
\<close>

record Quantity =
  magnitude :: real
  units :: string

definition GRAVITATIONAL_CONSTANT :: Quantity where
  "GRAVITATIONAL_CONSTANT =
     \<lparr>magnitude = 66743 / 10 ^ 15, units = ''N * m ** 2 / kg ** 2''\<rparr>"

definition EARTH_ACCEL_CONSTANT :: Quantity where
  "EARTH_ACCEL_CONSTANT =
     \<lparr>magnitude = 3986018 / 10, units = ''km ** 3 / s ** 2''\<rparr>"

section \<open>Global functions\<close>

definition calculate_gravitational_force :: "fval \<Rightarrow> fval \<Rightarrow> fval \<Rightarrow> fval" where
  "calculate_gravitational_force m_0 m_1 r =
     fdiv (fmul (fmul (fneg (Finite (magnitude GRAVITATIONAL_CONSTANT))) m_0) m_1)
          (square r)"

definition calculate_gravitational_force_vector ::
    "fval \<Rightarrow> fval \<Rightarrow> ndarray \<Rightarrow> ndarray" where
  "calculate_gravitational_force_vector m_0 m_1 r =
     div_scalar
       (scalar_mul (fmul (fmul (fneg (Finite (magnitude GRAVITATIONAL_CONSTANT))) m_0) m_1) r)
       (power_np (norm_np r) 3)"

definition calculate_gravitational_acceleration_vector ::
    "fval \<Rightarrow> fval \<Rightarrow> ndarray \<Rightarrow> ndarray" where
  "calculate_gravitational_acceleration_vector m_0 m_1 r =
     div_scalar
       (scalar_mul (fmul (fneg (Finite (magnitude GRAVITATIONAL_CONSTANT))) (fadd m_0 m_1)) r)
       (power_np (norm_np r) 3)"

definition calculate_gravitation_acceleration_earth ::
    "fval \<Rightarrow> fval \<Rightarrow> ndarray \<Rightarrow> ndarray" where
  "calculate_gravitation_acceleration_earth m_0 m_1 r =
     div_scalar
       (scalar_mul (fneg (Finite (magnitude EARTH_ACCEL_CONSTANT))) r)
       (power_np (norm_np r) 3)"

section \<open>Classes\<close>

text \<open>
  \<open>Orbit\<close> is a dataclass of six fields, each with the default \<open>None\<close>. Its generated
  constructor is modelled for calls with keyword arguments: a keyword that is no field
  raises \<open>TypeError\<close>, a field that is not given takes its default, and no value is
  inspected. The type of the values is left open, as the annotations are not enforced.
\<close>

record 'q Orbit =
  alpha :: "'q option"
  eccen :: "'q option"
  incln :: "'q option"
  omega :: "'q option"
  perig :: "'q option"
  tperi :: "'q option"

datatype error = TypeError

definition Orbit_fields :: "string list" where
  "Orbit_fields = [''alpha'', ''eccen'', ''incln'', ''omega'', ''perig'', ''tperi'']"

definition Orbit_init :: "(string \<times> 'q) list \<Rightarrow> error + 'q Orbit" where
  "Orbit_init kwargs =
     (if list_all (\<lambda>k. k \<in> set Orbit_fields) (map fst kwargs)
      then Inr \<lparr>alpha = map_of kwargs ''alpha'',
                eccen = map_of kwargs ''eccen'',
                incln = map_of kwargs ''incln'',
                omega = map_of kwargs ''omega'',
                perig = map_of kwargs ''perig'',
                tperi = map_of kwargs ''tperi''\<rparr>
      else Inl TypeError)"

section \<open>Arithmetic of finite vectors\<close>

text \<open>On finite components the array operations are the real ones.\<close>

lemma dot_Finite: "dot (map Finite xs) (map Finite xs) = Finite (\<Sum>x\<leftarrow>xs. x\<^sup>2)"
  by (induction xs) (simp_all add: power2_eq_square)

lemma sum_squares_nonneg: "0 \<le> (\<Sum>x\<leftarrow>xs. (x::real)\<^sup>2)"
  by (induction xs) simp_all

lemma norm_np_Finite: "norm_np (map Finite xs) = Finite (euclidean_norm xs)"
  by (simp add: norm_np_def dot_Finite euclidean_norm_def sum_squares_nonneg)





lemma euclidean_norm_zero: "euclidean_norm (replicate n 0) = 0"
  by (induction n) (simp_all add: euclidean_norm_def)




lemma G_pos: "0 < magnitude GRAVITATIONAL_CONSTANT"
  by (simp add: GRAVITATIONAL_CONSTANT_def)



section \<open>Properties\<close>

subsection \<open>The scalar force\<close>





subsection \<open>The vector forms\<close>







subsection \<open>Force and acceleration\<close>






subsection \<open>Zero separation\<close>

text \<open>
  C9. At zero separation no function raises: each returns the value of its unguarded
  division. The scalar force of finite masses at \<open>r = 0\<close> is an infinity, or NaN when
  a mass is zero; each vector function at a separation vector of \<open>n\<close> zeros returns
  \<open>n\<close> NaNs.
\<close>

theorem zero_separation_not_guarded:
  "calculate_gravitational_force (Finite m_0) (Finite m_1) (Finite 0) =
     (if 0 < m_0 * m_1 then NegInf else if m_0 * m_1 < 0 then PosInf else NaN)
   \<and> calculate_gravitational_force_vector (Finite m_0) (Finite m_1) (replicate n (Finite 0)) =
       replicate n NaN
   \<and> calculate_gravitational_acceleration_vector (Finite m_0) (Finite m_1)
       (replicate n (Finite 0)) = replicate n NaN
   \<and> calculate_gravitation_acceleration_earth (Finite m_0) (Finite m_1)
       (replicate n (Finite 0)) = replicate n NaN"
proof -
  have norm0: "norm_np (replicate n (Finite 0)) = Finite 0"
    using norm_np_Finite [of "replicate n 0"] by (simp add: euclidean_norm_zero)
  have vec: "div_scalar (scalar_mul (Finite c) (replicate n (Finite 0))) (Finite 0) =
      replicate n NaN" for c
    by (simp add: div_scalar_def scalar_mul_def signed_inf_def)
  have "calculate_gravitational_force (Finite m_0) (Finite m_1) (Finite 0) =
      (if 0 < m_0 * m_1 then NegInf else if m_0 * m_1 < 0 then PosInf else NaN)"
    using G_pos
    by (simp add: calculate_gravitational_force_def square_def signed_inf_def
        zero_less_mult_iff mult_less_0_iff mult.assoc)
  then show ?thesis
    by (simp add: calculate_gravitational_force_vector_def
        calculate_gravitational_acceleration_vector_def
        calculate_gravitation_acceleration_earth_def norm0 vec)
qed

subsection \<open>The Earth approximation ignores the masses\<close>

text \<open>
  C6. Two calls of \<open>calculate_gravitation_acceleration_earth\<close> with the same separation
  vector return the same result whatever the four masses are; in particular the calls
  with masses 1, 1 and with masses 5, 9 at the separation [7000, 0, 0] agree.
\<close>

theorem earth_acceleration_mass_invariant:
  "calculate_gravitation_acceleration_earth m_0 m_1 r =
     calculate_gravitation_acceleration_earth m_0' m_1' r
   \<and> calculate_gravitation_acceleration_earth (Finite 1) (Finite 1)
       [Finite 7000, Finite 0, Finite 0] =
     calculate_gravitation_acceleration_earth (Finite 5) (Finite 9)
       [Finite 7000, Finite 0, Finite 0]"
  by (simp add: calculate_gravitation_acceleration_earth_def)

subsection \<open>Partial construction of an orbit\<close>

text \<open>
  C10. Constructing an \<open>Orbit\<close> with only the keyword \<open>eccen\<close> returns a record (no
  exception) whose eccentricity is the value given, whatever that value is, and whose
  other five fields are \<open>None\<close>.
\<close>

theorem Orbit_init_eccen_only:
  "Orbit_init [(''eccen'', e)] =
     Inr \<lparr>alpha = None, eccen = Some e, incln = None, omega = None,
          perig = None, tperi = None\<rparr>"
  by (simp add: Orbit_init_def Orbit_fields_def)

end
